theory Spec2Isabelle
  imports Main "HOL-Library.Word"
begin

unbundle bit_operations_syntax

chapter \<open>gb-emu: LCD registers, I/O dispatch, opcode fields, cartridge loading, CLI, main loop\<close>

type_synonym u8 = "8 word"
type_synonym u16 = "16 word"
type_synonym shade = "32 word"

section \<open>Diagnostics and failures\<close>

text \<open>
  The log functions (\<open>log_warn\<close>, \<open>log_err\<close> of utils/log.h) print a line and return.
  The model keeps the lines in a list, each with the message and the address it formats.
\<close>

datatype log_entry = LogWarn string u16 | LogErr string u16

text \<open>Ways in which a call does not complete.\<close>

datatype error =
    AssertFailed string   \<comment> \<open>\<open>ASSERT_MSG\<close> with a false condition\<close>
  | NotImplemented string \<comment> \<open>\<open>NOT_IMPLEMENTED\<close>, where it is fatal\<close>
  | OutOfBounds           \<comment> \<open>an access outside the object indexed\<close>
  | NullPointer           \<comment> \<open>an access through a pointer that is \<open>NULL\<close>\<close>

text \<open>
  Modelled from the spec: the macro \<open>BETWEEN\<close> (utils/macro.h) is not part of the sources at
  hand. The register blocks are address ranges with both ends included, as the uses in
  lcd.c say (\<open>CGB 0xFF68-6B\<close> for four bytes, \<open>LY or LYC\<close> for \<open>0xFF44, 0xFF45\<close>).
\<close>

definition BETWEEN :: "u16 \<Rightarrow> u16 \<Rightarrow> u16 \<Rightarrow> bool" where
  "BETWEEN x lo hi = (lo \<le> x \<and> x \<le> hi)"

text \<open>
  Modelled from the spec: the macro \<open>ASSERT_MSG\<close> (utils/error.h) is not part of the sources
  at hand. An assertion whose condition is false is a failure of the call, with the
  message; one whose condition is true does nothing.
\<close>

definition ASSERT_MSG :: "bool \<Rightarrow> string \<Rightarrow> error + unit" where
  "ASSERT_MSG cond msg = (if cond then Inr () else Inl (AssertFailed msg))"

section \<open>LCD registers (include/ppu/lcd.h, src/ppu/lcd.c)\<close>

text \<open>\<open>struct lcd\<close>: sixteen bytes, in this order, so that byte \<open>i\<close> is the register at \<open>0xFF40 + i\<close>
  for the first twelve; the last four are \<open>cgb_colors\<close>.\<close>

record lcd =
  lcdc :: u8
  stat :: u8
  scy :: u8
  scx :: u8
  ly :: u8
  lyc :: u8
  dma :: u8
  bgp :: u8
  obp0 :: u8
  obp1 :: u8
  wy :: u8
  wx :: u8
  bgpi :: u8
  bgpd :: u8
  obpi :: u8
  obpd :: u8

text \<open>
  The static variables of lcd.c: \<open>g_lcd\<close>, and \<open>g_palettes\<close> as the twelve shades of its
  \<open>dmg\<close> member laid out flat (\<open>bg\<close> at 0..3, \<open>obj[0]\<close> at 4..7, \<open>obj[1]\<close> at 8..11). The log
  is the output of \<open>log_warn\<close>.
\<close>

record lcd_state =
  g_lcd :: lcd
  g_palettes :: "shade list"
  lcd_log :: "log_entry list"

definition log_warn :: "string \<Rightarrow> u16 \<Rightarrow> lcd_state \<Rightarrow> lcd_state" where
  "log_warn msg address s = s\<lparr>lcd_log := lcd_log s @ [LogWarn msg address]\<rparr>"

definition default_palette :: "shade list" where
  "default_palette = [0xFFFFFFFF, 0xFFAAAAAA, 0xFF555555, 0xFF000000]"

text \<open>\<open>((u8 *)&g_lcd)[i]\<close>: the struct read as a byte array. Outside the struct there is no byte.\<close>

definition lcd_byte :: "lcd \<Rightarrow> int \<Rightarrow> u8 option" where
  "lcd_byte l i =
     (if i = 0 then Some (lcdc l) else if i = 1 then Some (stat l)
      else if i = 2 then Some (scy l) else if i = 3 then Some (scx l)
      else if i = 4 then Some (ly l) else if i = 5 then Some (lyc l)
      else if i = 6 then Some (dma l) else if i = 7 then Some (bgp l)
      else if i = 8 then Some (obp0 l) else if i = 9 then Some (obp1 l)
      else if i = 10 then Some (wy l) else if i = 11 then Some (wx l)
      else if i = 12 then Some (bgpi l) else if i = 13 then Some (bgpd l)
      else if i = 14 then Some (obpi l) else if i = 15 then Some (obpd l)
      else None)"

text \<open>\<open>((u8 *)&g_lcd)[i] = v\<close>.\<close>

definition lcd_set_byte :: "lcd \<Rightarrow> int \<Rightarrow> u8 \<Rightarrow> lcd option" where
  "lcd_set_byte l i v =
     (if i = 0 then Some (l\<lparr>lcdc := v\<rparr>) else if i = 1 then Some (l\<lparr>stat := v\<rparr>)
      else if i = 2 then Some (l\<lparr>scy := v\<rparr>) else if i = 3 then Some (l\<lparr>scx := v\<rparr>)
      else if i = 4 then Some (l\<lparr>ly := v\<rparr>) else if i = 5 then Some (l\<lparr>lyc := v\<rparr>)
      else if i = 6 then Some (l\<lparr>dma := v\<rparr>) else if i = 7 then Some (l\<lparr>bgp := v\<rparr>)
      else if i = 8 then Some (l\<lparr>obp0 := v\<rparr>) else if i = 9 then Some (l\<lparr>obp1 := v\<rparr>)
      else if i = 10 then Some (l\<lparr>wy := v\<rparr>) else if i = 11 then Some (l\<lparr>wx := v\<rparr>)
      else if i = 12 then Some (l\<lparr>bgpi := v\<rparr>) else if i = 13 then Some (l\<lparr>bgpd := v\<rparr>)
      else if i = 14 then Some (l\<lparr>obpi := v\<rparr>) else if i = 15 then Some (l\<lparr>obpd := v\<rparr>)
      else None)"

text \<open>\<open>((u8 *)&g_lcd.cgb_colors)[i] = v\<close>: the same bytes, from offset 12.\<close>

definition cgb_set_byte :: "lcd \<Rightarrow> int \<Rightarrow> u8 \<Rightarrow> lcd option" where
  "cgb_set_byte l i v = (if 0 \<le> i then lcd_set_byte l (12 + i) v else None)"

text \<open>\<open>palette_name\<close>: \<open>OBJS = 0, SPRITE_0, SPRITE_1, INVALID\<close>.\<close>

definition INVALID :: nat where
  "INVALID = 3"

text \<open>
  \<open>lcd_get_palette\<close>: after the assertion on the index, the pointer returned is
  \<open>g_palettes.dmg.bg\<close> advanced by \<open>sizeof(palette)\<close> bytes, whatever the index: offset 4 of the
  flat shades.
\<close>

definition lcd_get_palette :: "nat \<Rightarrow> error + nat" where
  "lcd_get_palette index =
     (case ASSERT_MSG (index < INVALID) ''LCD: Invalid palette index'' of
        Inl e \<Rightarrow> Inl e
      | Inr u \<Rightarrow> Inr 4)"

text \<open>\<open>SHADE(_data, _index)\<close>: \<open>default_palette[((_data) >> (2 * (_index))) & 0b11]\<close>.\<close>

definition SHADE :: "u8 \<Rightarrow> nat \<Rightarrow> shade" where
  "SHADE data index = default_palette ! unat (drop_bit (2 * index) data AND 3)"

text \<open>\<open>lcd_update_palette\<close>. The enumerator \<open>BG_PALETTE\<close> it compares the name with is not declared in
  lcd.h as given, so it is a parameter.\<close>

definition lcd_update_palette :: "nat \<Rightarrow> nat \<Rightarrow> u8 \<Rightarrow> lcd_state \<Rightarrow> error + lcd_state" where
  "lcd_update_palette BG_PALETTE name data s =
     (case lcd_get_palette name of
        Inl e \<Rightarrow> Inl e
      | Inr p \<Rightarrow>
          let ps0 = (g_palettes s)[p := SHADE data 0];
              ps1 = ps0[p + 1 := SHADE data 1];
              ps2 = ps1[p + 2 := SHADE data 2];
              ps3 = (if name = BG_PALETTE then ps2[p + 3 := SHADE data 3] else ps2)
          in Inr (s\<lparr>g_palettes := ps3\<rparr>))"

text \<open>
  \<open>init_lcd\<close>, and the statics as the C runtime leaves them before it: all bytes zero.
\<close>

definition lcd_static :: lcd_state where
  "lcd_static =
     \<lparr>g_lcd = \<lparr>lcdc = 0, stat = 0, scy = 0, scx = 0, ly = 0, lyc = 0, dma = 0, bgp = 0,
                obp0 = 0, obp1 = 0, wy = 0, wx = 0, bgpi = 0, bgpd = 0, obpi = 0, obpd = 0\<rparr>,
      g_palettes = replicate 12 0,
      lcd_log = []\<rparr>"

definition init_lcd :: "lcd_state \<Rightarrow> lcd_state" where
  "init_lcd s =
     (let l0 = (g_lcd s)\<lparr>lcdc := 0x91, scx := 0, scy := 0, wx := 0, wy := 0, ly := 0, lyc := 0\<rparr>;
          l1 = l0\<lparr>bgp := 0xFC, obp0 := 0xFF, obp1 := 0xFF\<rparr>;
          ps = default_palette @ default_palette @ default_palette;
          l2 = l1\<lparr>stat := 0\<rparr>;
          l3 = l2\<lparr>stat := stat l2 OR 4\<rparr>
      in s\<lparr>g_lcd := l3, g_palettes := ps\<rparr>)"

text \<open>The \<open>default\<close> branch of the \<open>switch\<close> in \<open>write_lcd\<close>. An address below \<open>0xFF40\<close> would index
  before the struct.\<close>

definition write_lcd_default :: "u16 \<Rightarrow> u8 \<Rightarrow> lcd_state \<Rightarrow> error + lcd_state" where
  "write_lcd_default address v s =
     (if address \<le> 0xFF4B then
        (case lcd_set_byte (g_lcd s) (uint address - 0xFF40) v of
           None \<Rightarrow> Inl OutOfBounds
         | Some l \<Rightarrow> Inr (s\<lparr>g_lcd := l\<rparr>))
      else if BETWEEN address 0xFF68 0xFF6B then
        (case cgb_set_byte (g_lcd s) (uint address - 0xFF68) v of
           None \<Rightarrow> Inl OutOfBounds
         | Some l \<Rightarrow> Inr (s\<lparr>g_lcd := l\<rparr>))
      else Inr (log_warn ''LCD: Invalid write address: . Skipping.'' address s))"

text \<open>The tail of \<open>write_lcd\<close>: after a change of LY or LYC, the LYC flag (bit 2 of STAT) says
  whether they are equal.\<close>

definition update_lyc_flag :: "u16 \<Rightarrow> lcd_state \<Rightarrow> lcd_state" where
  "update_lyc_flag address s =
     (if BETWEEN address 0xFF44 0xFF45 then
        (if ly (g_lcd s) = lyc (g_lcd s)
         then s\<lparr>g_lcd := (g_lcd s)\<lparr>stat := stat (g_lcd s) OR 4\<rparr>\<rparr>
         else s\<lparr>g_lcd := (g_lcd s)\<lparr>stat := stat (g_lcd s) AND NOT 4\<rparr>\<rparr>)
      else s)"

text \<open>
  \<open>write_lcd\<close>. The macro \<open>NOT_IMPLEMENTED\<close> (utils/error.h) is not part of the sources at
  hand: what it does to the run, given its message, is the parameter \<open>not_implemented\<close>.
  \<open>BG_PALETTE\<close> is passed on to \<open>lcd_update_palette\<close>.
\<close>

definition write_lcd ::
  "(string \<Rightarrow> lcd_state \<Rightarrow> error + lcd_state) \<Rightarrow> nat \<Rightarrow> u16 \<Rightarrow> u8 \<Rightarrow> lcd_state \<Rightarrow> error + lcd_state"
where
  "write_lcd not_implemented BG_PALETTE address v s =
     (if address = 0xFF41 then
        (let l = g_lcd s;
             st0 = stat l AND 0x7;
             st1 = st0 OR (v AND 0xF8);
             st2 = st1 OR 0x80
         in Inr (s\<lparr>g_lcd := l\<lparr>stat := st2\<rparr>\<rparr>))
      else if address = 0xFF44 then
        Inr (log_warn ''LCD: Writing to read only address (). Skipping.'' address s)
      else if address = 0xFF46 then
        not_implemented ''OAM DMA Transfer'' s
      else
        (case (if address = 0xFF47 \<or> address = 0xFF48 \<or> address = 0xFF49
               then lcd_update_palette BG_PALETTE (nat (uint address - 0xFF47)) v s
               else Inr s) of
           Inl e \<Rightarrow> Inl e
         | Inr s1 \<Rightarrow>
             (case write_lcd_default address v s1 of
                Inl e \<Rightarrow> Inl e
              | Inr s2 \<Rightarrow> Inr (update_lyc_flag address s2))))"

text \<open>\<open>read_lcd\<close>: the assertion on the address, then the byte of the struct.\<close>

definition read_lcd :: "u16 \<Rightarrow> lcd_state \<Rightarrow> error + u8" where
  "read_lcd address s =
     (case ASSERT_MSG (BETWEEN address 0xFF40 0xFF4A) ''Invalid LCD read address'' of
        Inl e \<Rightarrow> Inl e
      | Inr u \<Rightarrow>
          (case lcd_byte (g_lcd s) (uint address - 0xFF40) of
             None \<Rightarrow> Inl OutOfBounds
           | Some b \<Rightarrow> Inr b))"

section \<open>I/O dispatch (src/io.c)\<close>

text \<open>
  Modelled from the spec: the macro \<open>IN_RANGE\<close> (utils/macro.h) is not part of the sources
  at hand. The timer registers are the addresses \<open>TIMER_DIV\<close> to \<open>TIMER_TAC\<close>, both ends
  included.
\<close>

definition IN_RANGE :: "u16 \<Rightarrow> u16 \<Rightarrow> u16 \<Rightarrow> bool" where
  "IN_RANGE x lo hi = (lo \<le> x \<and> x \<le> hi)"

text \<open>
  What io.c takes from CPU/timer.h and CPU/interrupt.h, which are not part of the sources at
  hand: the three addresses and the four accessors, over the state \<open>'s\<close> of the timer and the
  interrupt controller. A read may change that state, as a C function may.
\<close>

record 's io_env =
  TIMER_DIV :: u16
  TIMER_TAC :: u16
  IF_ADDRESS :: u16
  write_timer :: "u16 \<Rightarrow> u8 \<Rightarrow> 's \<Rightarrow> 's"
  read_timer :: "u16 \<Rightarrow> 's \<Rightarrow> u8 \<times> 's"
  write_interrupt :: "u16 \<Rightarrow> u8 \<Rightarrow> 's \<Rightarrow> 's"
  read_interrupt :: "u16 \<Rightarrow> 's \<Rightarrow> u8 \<times> 's"

text \<open>The emulated state, and the lines \<open>log_err\<close> has printed.\<close>

record 's io_state =
  io_regs :: 's
  io_log :: "log_entry list"

definition log_err :: "string \<Rightarrow> u16 \<Rightarrow> 's io_state \<Rightarrow> 's io_state" where
  "log_err msg address st = st\<lparr>io_log := io_log st @ [LogErr msg address]\<rparr>"

definition write_io :: "'s io_env \<Rightarrow> u16 \<Rightarrow> u8 \<Rightarrow> 's io_state \<Rightarrow> 's io_state" where
  "write_io env address data st =
     (if IN_RANGE address (TIMER_DIV env) (TIMER_TAC env) then
        st\<lparr>io_regs := write_timer env address data (io_regs st)\<rparr>
      else if address = IF_ADDRESS env then
        st\<lparr>io_regs := write_interrupt env (IF_ADDRESS env) data (io_regs st)\<rparr>
      else log_err ''IO write: '' address st)"

definition read_io :: "'s io_env \<Rightarrow> u16 \<Rightarrow> 's io_state \<Rightarrow> u8 \<times> 's io_state" where
  "read_io env address st =
     (if IN_RANGE address (TIMER_DIV env) (TIMER_TAC env) then
        (let (b, r) = read_timer env address (io_regs st) in (b, st\<lparr>io_regs := r\<rparr>))
      else if address = IF_ADDRESS env then
        (let (b, r) = read_interrupt env (IF_ADDRESS env) (io_regs st) in (b, st\<lparr>io_regs := r\<rparr>))
      else (0, log_err ''IO write: '' address st))"

text \<open>
  An instance for evaluation: the Game Boy's timer registers at \<open>0xFF04..0xFF07\<close>, the
  interrupt flag at \<open>0xFF0F\<close>, and one byte of state behind every accessor.
\<close>

definition gb_io_env :: "u8 io_env" where
  "gb_io_env =
     \<lparr>TIMER_DIV = 0xFF04, TIMER_TAC = 0xFF07, IF_ADDRESS = 0xFF0F,
      write_timer = (\<lambda>a d r. d), read_timer = (\<lambda>a r. (r, r)),
      write_interrupt = (\<lambda>a d r. d), read_interrupt = (\<lambda>a r. (r, r))\<rparr>"

section \<open>Opcode fields (CPU/instruction.h)\<close>

text \<open>
  The macros \<open>OPCODE_X\<close>, \<open>OPCODE_Y\<close>, \<open>OPCODE_Z\<close>, \<open>OPCODE_Q\<close> and \<open>OPCODE_P\<close> have two
  definitions, chosen by \<open>#if __BYTE_ORDER == __BIG_ENDIAN\<close>. The branch taken is a
  parameter of the model.
\<close>

datatype byte_order_branch = BigEndianBranch | LittleEndianBranch

definition OPCODE_X :: "byte_order_branch \<Rightarrow> u8 \<Rightarrow> u8" where
  "OPCODE_X br opcode =
     (case br of BigEndianBranch \<Rightarrow> drop_bit 6 opcode
               | LittleEndianBranch \<Rightarrow> opcode AND 0x03)"

definition OPCODE_Y :: "byte_order_branch \<Rightarrow> u8 \<Rightarrow> u8" where
  "OPCODE_Y br opcode =
     (case br of BigEndianBranch \<Rightarrow> drop_bit 3 opcode AND 0x07
               | LittleEndianBranch \<Rightarrow> drop_bit 2 opcode AND 0x07)"

definition OPCODE_Z :: "byte_order_branch \<Rightarrow> u8 \<Rightarrow> u8" where
  "OPCODE_Z br opcode =
     (case br of BigEndianBranch \<Rightarrow> opcode AND 0x07
               | LittleEndianBranch \<Rightarrow> drop_bit 5 opcode)"

definition OPCODE_Q :: "byte_order_branch \<Rightarrow> u8 \<Rightarrow> u8" where
  "OPCODE_Q br opcode =
     (case br of BigEndianBranch \<Rightarrow> drop_bit 3 opcode AND 0x01
               | LittleEndianBranch \<Rightarrow> drop_bit 4 opcode AND 0x01)"

definition OPCODE_P :: "byte_order_branch \<Rightarrow> u8 \<Rightarrow> u8" where
  "OPCODE_P br opcode =
     (case br of BigEndianBranch \<Rightarrow> drop_bit 4 opcode AND 0x03
               | LittleEndianBranch \<Rightarrow> drop_bit 2 opcode AND 0x03)"

text \<open>
  The fields as the comment above the macros gives them: bits \<open>hi\<close> down to \<open>lo\<close> of the byte,
  as a number.
\<close>

definition bits_of :: "nat \<Rightarrow> nat \<Rightarrow> u8 \<Rightarrow> u8" where
  "bits_of hi lo b = take_bit (Suc hi - lo) (drop_bit lo b)"

section \<open>Cartridge loading (cartridge.c)\<close>

text \<open>
  \<open>struct cartridge\<close>, as far as cartridge.c uses it. \<open>rom\<close> is a pointer: \<open>None\<close> is \<open>NULL\<close>,
  as in the variable before anything is loaded; otherwise it holds the \<open>rom_size\<close> bytes that
  \<open>fread\<close> puts in the buffer. \<open>ram\<close> is only allocated, so its size stands for it.
\<close>

record cartridge =
  filename :: string
  rom :: "u8 list option"
  rom_size :: nat
  ram_size :: nat
  multicart :: bool

text \<open>
  What cartridge.c prints on \<open>stdout\<close>: a \<open>puts\<close> or a row of characters with its newline,
  and a \<open>printf\<close> as its label with the value it formats (\<open>%s\<close>, \<open>%d\<close>, \<open>%2.2X\<close>); tabs and
  newlines of the format strings are left out.
\<close>

datatype printed = Puts string | PrintfS string string | PrintfD string nat | PrintfX string nat

text \<open>The variable \<open>cartridge\<close> and what the program has written to \<open>stderr\<close> and
  \<open>stdout\<close>.\<close>

record cart_state =
  cartridge :: cartridge
  stderr :: "string list"
  stdout :: "printed list"

text \<open>
  The loop of \<open>verify_header_checksum\<close>: \<open>while (i <= 0x014C) sum -= cart.rom[i++] - 1;\<close>
  with \<open>sum\<close> an \<open>unsigned char\<close> (here \<open>csum\<close>). A ROM that ends before \<open>0x014C\<close> is read out of bounds.
\<close>

function checksum_loop :: "u8 list \<Rightarrow> nat \<Rightarrow> u8 \<Rightarrow> error + u8" where
  "checksum_loop bytes i csum =
     (if i \<le> 0x014C then
        (if i < length bytes then checksum_loop bytes (Suc i) (csum - (bytes ! i - 1))
         else Inl OutOfBounds)
      else Inr csum)"
  by pat_completeness auto
termination
  by (relation "measure (\<lambda>(bytes, i, csum). 0x014D - i)") auto

definition verify_header_checksum :: "cartridge \<Rightarrow> error + bool" where
  "verify_header_checksum c =
     (case rom c of
        None \<Rightarrow> Inl NullPointer
      | Some bytes \<Rightarrow>
          (case checksum_loop bytes 0x0134 0 of
             Inl e \<Rightarrow> Inl e
           | Inr csum \<Rightarrow> Inr (csum = 0)))"

text \<open>
  What \<open>load_cartridge\<close> and \<open>cartridge_info\<close> take from outside cartridge.c: the file system (\<open>fopen\<close> gives the
  bytes of the file, or \<open>None\<close> for \<open>NULL\<close>), the header fields behind the macro \<open>HEADER\<close> and
  the enumerators of cartridge.h, which are not part of the sources at hand, and
  \<open>check_multicart\<close>, whose loop runs on \<open>read_cartridge\<close>, \<open>chip_registers\<close> and
  \<open>nintendo_logo\<close>, not part of them either. \<open>hdr_ram_size\<close> and \<open>hdr_rom_version\<close> are the
  header fields as \<open>load_cartridge\<close> reads them, before \<open>fread\<close> has filled the buffer;
  \<open>hdr_type\<close> is read after it, from the bytes, and so are the four fields \<open>cartridge_info\<close>
  prints. \<open>nintendo_logo\<close> is the table of that name.
\<close>

record cart_env =
  fopen :: "string \<Rightarrow> u8 list option"
  hdr_ram_size :: u8
  hdr_rom_version :: nat
  hdr_type :: "u8 list \<Rightarrow> nat"
  ROM_ONLY :: nat
  MBC1 :: nat
  MBC2 :: nat
  check_multicart :: "cart_state \<Rightarrow> cart_state"
  hdr_game_title :: "u8 list \<Rightarrow> string"
  hdr_rom_size :: "u8 list \<Rightarrow> nat"
  hdr_ram_size_loaded :: "u8 list \<Rightarrow> nat"
  hdr_rom_version_loaded :: "u8 list \<Rightarrow> nat"
  nintendo_logo :: "nat \<Rightarrow> u8"

definition load_cartridge :: "cart_env \<Rightarrow> string \<Rightarrow> cart_state \<Rightarrow> error + (bool \<times> cart_state)" where
  "load_cartridge env path s =
     (case fopen env path of
        None \<Rightarrow> Inr (False, s\<lparr>stderr := stderr s @ [''Failed to load cartridge'']\<rparr>)
      | Some bytes \<Rightarrow>
          let c0 = (cartridge s)\<lparr>filename := path, rom_size := length bytes, multicart := False\<rparr>;
              code = hdr_ram_size env;
              rs = (if code = 2 then 2 * 2 ^ 13 else if code = 3 then 2 * 2 ^ 15
                    else if code = 4 then 2 * 2 ^ 17 else if code = 5 then 2 * 2 ^ 16 else 0);
              rs' = (if hdr_rom_version env > MBC1 env \<and> hdr_rom_version env \<le> MBC2 env
                     then 512 else rs);
              c1 = c0\<lparr>ram_size := rs', rom := Some bytes\<rparr>;
              s1 = s\<lparr>cartridge := c1\<rparr>
          in (case verify_header_checksum c1 of
                Inl e \<Rightarrow> Inl e
              | Inr True \<Rightarrow>
                  Inr (False, s1\<lparr>stderr := stderr s1 @ [''Failed to load cartridge: Invalid checksum.'']\<rparr>)
              | Inr False \<Rightarrow>
                  (let type = hdr_type env bytes;
                       s2 = (if type \<noteq> ROM_ONLY env \<and> type \<le> MBC1 env then check_multicart env s1 else s1)
                   in Inr (True, s2))))"

text \<open>
  \<open>print_nintendo_logo\<close>: eight rows; row \<open>y\<close> takes twelve bytes of the table from
  \<open>((y / 2) % 2) + (y / 4) * 24\<close> in steps of 2, the low nibble of each in the odd rows and the
  high nibble in the even ones, and prints a nibble as four characters, bit 3 first.
\<close>

definition logo_nibble :: "u8 \<Rightarrow> string" where
  "logo_nibble n = map (\<lambda>b. if bit n b then CHR ''*'' else CHR '' '') [3, 2, 1, 0]"

definition logo_row :: "(nat \<Rightarrow> u8) \<Rightarrow> nat \<Rightarrow> string" where
  "logo_row logo y =
     concat (map (\<lambda>x. let i = (y div 2) mod 2 + (y div 4) * 24 + 2 * x;
                           n = (if y mod 2 = 1 then logo i AND 0xF else drop_bit 4 (logo i))
                       in logo_nibble n) [0..<12])"

definition print_nintendo_logo :: "(nat \<Rightarrow> u8) \<Rightarrow> printed list" where
  "print_nintendo_logo logo = map (\<lambda>y. Puts (logo_row logo y)) [0..<8]"

text \<open>
  \<open>cartridge_info\<close>: \<open>header\<close> is \<open>HEADER(cartridge)\<close>, a pointer into \<open>cartridge.rom\<close>, and
  the title, the sizes and the version are read through it. With \<open>rom\<close> still \<open>NULL\<close> that
  is an access through a null pointer. Otherwise the function prints and changes nothing
  else.
\<close>

definition cartridge_info :: "cart_env \<Rightarrow> cart_state \<Rightarrow> error + cart_state" where
  "cartridge_info env s =
     (case rom (cartridge s) of
        None \<Rightarrow> Inl NullPointer
      | Some bytes \<Rightarrow>
          Inr (s\<lparr>stdout := stdout s
                 @ print_nintendo_logo (nintendo_logo env)
                 @ [Puts ''Cartridge information:'',
                    PrintfS ''Path      : %s'' (filename (cartridge s)),
                    PrintfS ''Title     : %s'' (hdr_game_title env bytes),
                    PrintfD ''ROM Size  : %d KB'' (32 * 2 ^ hdr_rom_size env bytes),
                    PrintfX ''RAM Size  : %2.2X'' (hdr_ram_size_loaded env bytes),
                    PrintfX ''ROM Vers  : %2.2X'' (hdr_rom_version_loaded env bytes),
                    PrintfS ''Multicart : %s'' (if multicart (cartridge s) then ''YES'' else ''NO''),
                    Puts []]\<rparr>))"

text \<open>
  Instances for evaluation. Two ROM images of \<open>0x150\<close> bytes: one whose bytes
  \<open>0x0134..0x014C\<close> are all 1, so that the loop's sum stays 0, and one of zeros only, where
  the sum ends at 25. The file system holds them under two names. The header fields are
  those of a ROM-only cartridge without RAM.
\<close>

definition rom_sum_zero :: "u8 list" where
  "rom_sum_zero = replicate 0x134 0 @ replicate 25 1 @ replicate 3 0"

definition rom_sum_nonzero :: "u8 list" where
  "rom_sum_nonzero = replicate 0x150 0"

definition demo_cart_env :: cart_env where
  "demo_cart_env =
     \<lparr>fopen = (\<lambda>p. if p = ''zero.gb'' then Some rom_sum_zero
                    else if p = ''nonzero.gb'' then Some rom_sum_nonzero else None),
      hdr_ram_size = 0, hdr_rom_version = 0, hdr_type = (\<lambda>bytes. 0),
      ROM_ONLY = 0, MBC1 = 3, MBC2 = 6,
      check_multicart = (\<lambda>s. s),
      hdr_game_title = (\<lambda>bytes. ''DEMO''), hdr_rom_size = (\<lambda>bytes. 0),
      hdr_ram_size_loaded = (\<lambda>bytes. 0), hdr_rom_version_loaded = (\<lambda>bytes. 0),
      nintendo_logo = (\<lambda>i. 0)\<rparr>"

definition cart_static :: cart_state where
  "cart_static =
     \<lparr>cartridge = \<lparr>filename = [], rom = None, rom_size = 0, ram_size = 0, multicart = False\<rparr>,
      stderr = [], stdout = []\<rparr>"

section \<open>Command line (options.c)\<close>

text \<open>
  \<open>struct options\<close> (options.h, not part of the sources at hand), from the fields options.c
  sets. \<open>args\<close> is indexed by the number of the positional argument; \<open>log_level\<close> \<open>-1\<close> is
  \<open>LOG_SILENT\<close> here.
\<close>

datatype log_level = LOG_TRACE | LOG_INFO | LOG_WARNING | LOG_ERROR | LOG_SILENT

record options =
  opt_log_level :: log_level
  opt_trace :: bool
  opt_blargg :: bool
  opt_exit_infinite_loop :: bool
  opt_gui :: bool
  opt_args :: "nat \<rightharpoonup> string"

text \<open>The keys argp hands to the parser: an option's character, or one of its special keys.\<close>

datatype argp_key = KeyChar char | ARGP_KEY_ARG | ARGP_KEY_END | ARGP_KEY_OTHER

text \<open>
  How parsing stops without an options struct: \<open>argp_usage\<close> prints the usage message and
  exits with a non-zero status (the parser is run with flags 0); argp itself exits on an
  option the parser does not know; an option that should carry a value has none.
\<close>

datatype cli_stop = UsageExit | UnknownOption | NullValue

text \<open>\<open>get_options\<close>: the static struct with its initialisers.\<close>

definition get_options :: options where
  "get_options =
     \<lparr>opt_log_level = LOG_INFO, opt_trace = False, opt_blargg = False,
      opt_exit_infinite_loop = False, opt_gui = True, opt_args = Map.empty\<rparr>"

text \<open>
  \<open>parse_opt\<close>, with \<open>GBEMU_NB_ARGS\<close> (options.h) as a parameter and \<open>state->arg_num\<close> as
  \<open>arg_num\<close>. The result is the struct and whether the key was known (\<open>0\<close> or
  \<open>ARGP_ERR_UNKNOWN\<close>); the warning on a bad log level is the string list.
\<close>

definition parse_opt ::
  "nat \<Rightarrow> argp_key \<Rightarrow> string option \<Rightarrow> nat \<Rightarrow> options \<times> string list
     \<Rightarrow> cli_stop + (bool \<times> options \<times> string list)"
where
  "parse_opt GBEMU_NB_ARGS key val arg_num st =
     (let (arguments, out) = st in
      if key = KeyChar CHR ''t'' then Inr (True, arguments\<lparr>opt_trace := True\<rparr>, out)
      else if key = KeyChar CHR ''x'' then Inr (True, arguments\<lparr>opt_exit_infinite_loop := True\<rparr>, out)
      else if key = KeyChar CHR ''b'' then Inr (True, arguments\<lparr>opt_blargg := True\<rparr>, out)
      else if key = KeyChar CHR ''s'' then Inr (True, arguments\<lparr>opt_log_level := LOG_SILENT\<rparr>, out)
      else if key = KeyChar CHR ''l'' then
        (case val of
           None \<Rightarrow> Inl NullValue
         | Some v \<Rightarrow>
             if v = ''TRACE'' then Inr (True, arguments\<lparr>opt_log_level := LOG_TRACE\<rparr>, out)
             else if v = ''WARNING'' then Inr (True, arguments\<lparr>opt_log_level := LOG_WARNING\<rparr>, out)
             else if v = ''ERROR'' then Inr (True, arguments\<lparr>opt_log_level := LOG_ERROR\<rparr>, out)
             else Inr (True, arguments\<lparr>opt_log_level := LOG_INFO\<rparr>,
                       out @ [''Invalid argument for option -l / --log-level: '' @ v]))
      else if key = KeyChar CHR ''g'' then
        (case val of
           None \<Rightarrow> Inl NullValue
         | Some v \<Rightarrow> Inr (True, arguments\<lparr>opt_gui := (v = ''yes'' \<or> v = ''y'')\<rparr>, out))
      else if key = ARGP_KEY_ARG then
        (if arg_num > GBEMU_NB_ARGS then Inl UsageExit
         else Inr (True, arguments\<lparr>opt_args := (opt_args arguments)(arg_num := val)\<rparr>, out))
      else if key = ARGP_KEY_END then
        (if arg_num < GBEMU_NB_ARGS then Inl UsageExit
         else Inr (True, arguments, out))
      else Inr (False, arguments, out))"

text \<open>
  The command line as argp reads it: options with their values, and positional arguments,
  in the order in which the parser gets them.
\<close>

datatype cli_word = Opt char "string option" | Positional string

text \<open>
  \<open>argp_parse\<close> (glibc), for one parser and flags 0: each word goes to the parser, a
  positional argument with \<open>arg_num\<close> the number of those accepted before it; after the last
  word the parser gets \<open>ARGP_KEY_END\<close>.
\<close>

fun argp_parse ::
  "nat \<Rightarrow> cli_word list \<Rightarrow> nat \<Rightarrow> options \<times> string list \<Rightarrow> cli_stop + (options \<times> string list)"
where
  "argp_parse nb [] arg_num st =
     (case parse_opt nb ARGP_KEY_END None arg_num st of
        Inl e \<Rightarrow> Inl e
      | Inr (known, st') \<Rightarrow> Inr st')"
| "argp_parse nb (Opt c val # ws) arg_num st =
     (case parse_opt nb (KeyChar c) val arg_num st of
        Inl e \<Rightarrow> Inl e
      | Inr (known, st') \<Rightarrow> if known then argp_parse nb ws arg_num st' else Inl UnknownOption)"
| "argp_parse nb (Positional a # ws) arg_num st =
     (case parse_opt nb ARGP_KEY_ARG (Some a) arg_num st of
        Inl e \<Rightarrow> Inl e
      | Inr (known, st') \<Rightarrow> argp_parse nb ws (Suc arg_num) st')"

definition parse_options :: "nat \<Rightarrow> cli_word list \<Rightarrow> cli_stop + (options \<times> string list)" where
  "parse_options nb argv = argp_parse nb argv 0 (get_options, [])"

section \<open>The program (main.c)\<close>

text \<open>
  The globals \<open>main\<close> reads and the functions it calls work on: the two flags of \<open>cpu\<close> it
  tests, the cartridge, and everything else (registers, timer, interrupt controller,
  memory) as \<open>rest\<close>.
\<close>

record 'x emu =
  is_running :: bool
  halt :: bool
  cart :: cart_state
  rest :: 'x

text \<open>
  The functions \<open>main\<close> calls whose files are not part of the sources at hand. Each works on
  the globals and returns.
\<close>

record 'x ops =
  reset_cpu :: "'x emu \<Rightarrow> 'x emu"
  reset_timer :: "'x emu \<Rightarrow> 'x emu"
  timer_tick :: "'x emu \<Rightarrow> 'x emu"
  execute_instruction :: "'x emu \<Rightarrow> 'x emu"
  handle_interrupts :: "'x emu \<Rightarrow> 'x emu"
  test_rom_update :: "'x emu \<Rightarrow> 'x emu"
  test_rom_print :: "'x emu \<Rightarrow> 'x emu"

text \<open>The calls the loop makes, recorded in the order in which it makes them.\<close>

datatype call = TimerTick | ExecuteInstruction | HandleInterrupts | TestRomUpdate | TestRomPrint

text \<open>The body of the \<open>while\<close> loop, on the globals and the record of calls.\<close>

definition loop_body :: "'x ops \<Rightarrow> bool \<Rightarrow> 'x emu \<times> call list \<Rightarrow> 'x emu \<times> call list" where
  "loop_body f blargg st =
     (let (g, calls) = st;
          (g1, calls1) = (if halt g then (timer_tick f g, calls @ [TimerTick])
                          else (execute_instruction f g, calls @ [ExecuteInstruction]));
          (g2, calls2) = (handle_interrupts f g1, calls1 @ [HandleInterrupts])
      in if blargg
         then (test_rom_print f (test_rom_update f g2), calls2 @ [TestRomUpdate, TestRomPrint])
         else (g2, calls2))"

text \<open>\<open>while (cpu.is_running) { ... }\<close>: \<open>None\<close> is a loop that never ends.\<close>

partial_function (option) main_loop ::
  "'x ops \<Rightarrow> bool \<Rightarrow> 'x emu \<times> call list \<Rightarrow> ('x emu \<times> call list) option"
where
  "main_loop f blargg st =
     (if is_running (fst st) then main_loop f blargg (loop_body f blargg st) else Some st)"

text \<open>How a run of \<open>main\<close> ends.\<close>

datatype 'x outcome =
    CliStopped cli_stop               \<comment> \<open>argp left the process\<close>
  | NullPath                          \<comment> \<open>\<open>options->args[0]\<close> was never set\<close>
  | Crashed error                     \<comment> \<open>an access out of bounds or through \<open>NULL\<close>\<close>
  | Returned "'x emu" "call list"     \<comment> \<open>\<open>return 0\<close>, with the globals and the loop's calls\<close>
  | Diverged                          \<comment> \<open>the loop never ends\<close>

text \<open>
  \<open>main\<close>. The value \<open>load_cartridge\<close> returns is not looked at: the statement is
  \<open>load_cartridge(options->args[0]);\<close>. \<open>cartridge_info\<close> comes next, whatever that value
  was.
\<close>

definition main :: "nat \<Rightarrow> cart_env \<Rightarrow> 'x ops \<Rightarrow> cli_word list \<Rightarrow> 'x emu \<Rightarrow> 'x outcome" where
  "main nb env f argv g =
     (case parse_options nb argv of
        Inl e \<Rightarrow> CliStopped e
      | Inr (options, out) \<Rightarrow>
          (case opt_args options 0 of
             None \<Rightarrow> NullPath
           | Some path \<Rightarrow>
               (case load_cartridge env path (cart g) of
                  Inl e \<Rightarrow> Crashed e
                | Inr (loaded, c) \<Rightarrow>
                    (case cartridge_info env c of
                       Inl e \<Rightarrow> Crashed e
                     | Inr c' \<Rightarrow>
                         let g1 = g\<lparr>cart := c'\<rparr>;
                             g2 = reset_cpu f g1;
                             g3 = reset_timer f g2
                         in (case main_loop f (opt_blargg options) (g3, []) of
                               None \<Rightarrow> Diverged
                             | Some (g', calls) \<Rightarrow> Returned g' calls)))))"

text \<open>The calls of one iteration, from whether the CPU was halted at its start.\<close>

definition iteration_calls :: "bool \<Rightarrow> bool \<Rightarrow> call list" where
  "iteration_calls blargg halted =
     [if halted then TimerTick else ExecuteInstruction, HandleInterrupts]
     @ (if blargg then [TestRomUpdate, TestRomPrint] else [])"

text \<open>
  Instances for evaluation. \<open>reset_cpu\<close> starts the CPU (running, not halted), an executed
  instruction halts it, say a HALT, and the timer tick of the halted CPU ends the run;
  the other functions leave the flags alone.
\<close>

definition demo_ops :: "unit ops" where
  "demo_ops =
     \<lparr>reset_cpu = (\<lambda>g. g\<lparr>is_running := True, halt := False\<rparr>),
      reset_timer = (\<lambda>g. g),
      timer_tick = (\<lambda>g. g\<lparr>is_running := False\<rparr>),
      execute_instruction = (\<lambda>g. g\<lparr>halt := True\<rparr>),
      handle_interrupts = (\<lambda>g. g),
      test_rom_update = (\<lambda>g. g),
      test_rom_print = (\<lambda>g. g)\<rparr>"

definition emu_static :: "unit emu" where
  "emu_static = \<lparr>is_running = False, halt = False, cart = cart_static, rest = ()\<rparr>"

section \<open>Properties of the LCD registers\<close>

text \<open>
  C6. For every byte \<open>v\<close>, writing to the read-only LY register, \<open>write_lcd(0xFF44, v)\<close>, logs
  a warning and returns normally; the LCD registers (LY and STAT among them) and the palettes
  are what they were.
\<close>

theorem write_lcd_ly_read_only:
  "write_lcd ni bgpal 0xFF44 v s =
     Inr (s\<lparr>lcd_log := lcd_log s @ [LogWarn ''LCD: Writing to read only address (). Skipping.'' 0xFF44]\<rparr>)
   \<and> (\<exists>s'. write_lcd ni bgpal 0xFF44 v s = Inr s' \<and> g_lcd s' = g_lcd s
          \<and> g_palettes s' = g_palettes s \<and> lcd_log s' \<noteq> lcd_log s)"
  by (simp add: write_lcd_def log_warn_def)

text \<open>The three assignments to STAT, bit group by bit group.\<close>

lemma stat_write_low: "(((a AND 0x7) OR (v AND 0xF8)) OR 0x80) AND 0x07 = a AND (0x07 :: u8)"
  by (simp add: bit.conj_disj_distrib2 and.assoc)

lemma stat_write_mid: "(((a AND 0x7) OR (v AND 0xF8)) OR 0x80) AND 0x78 = v AND (0x78 :: u8)"
  by (simp add: bit.conj_disj_distrib2 and.assoc)

lemma stat_write_top: "bit ((((a AND 0x7) OR (v AND 0xF8)) OR 0x80) :: u8) 7"
  by (simp add: bit_simps)

text \<open>
  C9. For every byte \<open>v\<close> and every LCD state, \<open>write_lcd(0xFF41, v)\<close> returns a state that
  differs from the one before in STAT only; of the new STAT, bits 0-2 (mask \<open>0x07\<close>) are the
  old ones, bits 3-6 (mask \<open>0x78\<close>) are those of \<open>v\<close>, and bit 7 is set.
\<close>

theorem write_lcd_stat:
  "\<exists>st'. write_lcd ni bgpal 0xFF41 v s = Inr (s\<lparr>g_lcd := (g_lcd s)\<lparr>stat := st'\<rparr>\<rparr>)
     \<and> st' AND 0x07 = stat (g_lcd s) AND 0x07
     \<and> st' AND 0x78 = v AND 0x78
     \<and> bit st' 7"
  unfolding write_lcd_def Let_def
  using stat_write_low stat_write_mid stat_write_top by auto

text \<open>Writing a register that is neither STAT, LY nor DMA, then reading it.\<close>

lemma write_read_plain:
  "address = 0xFF42 \<or> address = 0xFF43 \<or> address = 0xFF45 \<or> address = 0xFF4A \<Longrightarrow>
   \<exists>s'. write_lcd ni bgpal address v s = Inr s' \<and> read_lcd address s' = Inr v"
  apply (elim disjE)
  apply (simp_all add: write_lcd_def write_lcd_default_def read_lcd_def ASSERT_MSG_def update_lyc_flag_def
      BETWEEN_def lcd_set_byte_def lcd_byte_def)
  done

lemma lcd_update_palette_frame:
  "name < INVALID \<Longrightarrow> \<exists>ps. lcd_update_palette bgpal name v s = Inr (s\<lparr>g_palettes := ps\<rparr>)"
  unfolding lcd_update_palette_def lcd_get_palette_def ASSERT_MSG_def Let_def
  by (cases "name = bgpal") (simp_all, blast+)

lemma palette_name_valid:
  "address = 0xFF47 \<or> address = 0xFF48 \<or> address = 0xFF49 \<Longrightarrow>
   nat (uint (address :: u16) - 0xFF47) < INVALID"
  by (auto simp: INVALID_def)

lemma write_lcd_palette_register:
  assumes a: "address = 0xFF47 \<or> address = 0xFF48 \<or> address = 0xFF49"
  shows "\<exists>ps. write_lcd ni bgpal address v s =
          (case write_lcd_default address v (s\<lparr>g_palettes := ps\<rparr>) of
             Inl e \<Rightarrow> Inl e
           | Inr s2 \<Rightarrow> Inr (update_lyc_flag address s2))"
proof -
  obtain ps where
    ps: "lcd_update_palette bgpal (nat (uint address - 0xFF47)) v s = Inr (s\<lparr>g_palettes := ps\<rparr>)"
    using lcd_update_palette_frame [OF palette_name_valid [OF a]] by blast
  have "write_lcd ni bgpal address v s =
          (case write_lcd_default address v (s\<lparr>g_palettes := ps\<rparr>) of
             Inl e \<Rightarrow> Inl e
           | Inr s2 \<Rightarrow> Inr (update_lyc_flag address s2))"
    using a unfolding write_lcd_def by (simp only: ps) auto
  then show ?thesis ..
qed

lemma write_read_palette:
  assumes a: "address = 0xFF47 \<or> address = 0xFF48 \<or> address = 0xFF49"
  shows "\<exists>s'. write_lcd ni bgpal address v s = Inr s' \<and> read_lcd address s' = Inr v"
proof -
  obtain ps where w: "write_lcd ni bgpal address v s =
          (case write_lcd_default address v (s\<lparr>g_palettes := ps\<rparr>) of
             Inl e \<Rightarrow> Inl e
           | Inr s2 \<Rightarrow> Inr (update_lyc_flag address s2))"
    using write_lcd_palette_register [OF a] by blast
  show ?thesis
    unfolding w using a
    apply (elim disjE)
    apply (simp_all add: write_lcd_default_def read_lcd_def ASSERT_MSG_def update_lyc_flag_def
      BETWEEN_def lcd_set_byte_def lcd_byte_def)
    done
qed

text \<open>
  C10. For every address among \<open>0xFF42\<close> (SCY), \<open>0xFF43\<close> (SCX), \<open>0xFF45\<close> (LYC),
  \<open>0xFF47\<close>-\<open>0xFF49\<close> (BGP, OBP0, OBP1) and \<open>0xFF4A\<close> (WY), and every byte \<open>v\<close>, \<open>write_lcd\<close>
  returns and \<open>read_lcd\<close> at the same address then returns \<open>v\<close>.
\<close>

theorem write_then_read_lcd:
  "address \<in> {0xFF42, 0xFF43, 0xFF45, 0xFF47, 0xFF48, 0xFF49, 0xFF4A} \<Longrightarrow>
   \<exists>s'. write_lcd ni bgpal address v s = Inr s' \<and> read_lcd address s' = Inr v"
  using write_read_plain [of address ni bgpal v s] write_read_palette [of address ni bgpal v s]
  by blast

theorem write_then_read_lcd_witness:
  "(0xFF47 :: u16) \<in> {0xFF42, 0xFF43, 0xFF45, 0xFF47, 0xFF48, 0xFF49, 0xFF4A}
   \<and> (\<exists>s'. write_lcd (\<lambda>msg s. Inl (NotImplemented msg)) 0 0xFF47 0xE4 (init_lcd lcd_static) = Inr s'
          \<and> read_lcd 0xFF47 s' = Inr 0xE4)"
  using write_then_read_lcd [of "0xFF47" "\<lambda>msg s. Inl (NotImplemented msg)" 0 "0xE4" "init_lcd lcd_static"]
  by simp

text \<open>The byte array covers the sixteen offsets of the struct.\<close>

lemma lcd_set_byte_defined:
  "0 \<le> i \<Longrightarrow> i \<le> 15 \<Longrightarrow> \<exists>l'. lcd_set_byte l i v = Some l'"
  unfolding lcd_set_byte_def by simp presburger

lemma lcd_byte_defined:
  "0 \<le> i \<Longrightarrow> i \<le> 15 \<Longrightarrow> \<exists>b. lcd_byte l i = Some b"
  unfolding lcd_byte_def by simp presburger

lemma BETWEEN_uint: "BETWEEN a lo hi = (uint lo \<le> uint a \<and> uint a \<le> uint hi)"
  by (simp add: BETWEEN_def word_le_def)

text \<open>Where the accesses complete: \<open>read_lcd\<close> inside the range of its assertion, and
  \<open>write_lcd\<close> on both register blocks, but for \<open>0xFF46\<close>, which is left to
  \<open>NOT_IMPLEMENTED\<close>.\<close>

lemma read_lcd_defined:
  assumes "BETWEEN address 0xFF40 0xFF4A"
  shows "\<exists>b. read_lcd address s = Inr b"
proof -
  from assms have r: "0 \<le> uint address - 0xFF40" "uint address - 0xFF40 \<le> 15"
    by (simp_all add: BETWEEN_uint)
  obtain b where "lcd_byte (g_lcd s) (uint address - 0xFF40) = Some b"
    using lcd_byte_defined [OF r] by blast
  with assms show ?thesis by (simp add: read_lcd_def ASSERT_MSG_def)
qed

lemma write_lcd_default_defined:
  assumes "BETWEEN address 0xFF40 0xFF4B \<or> BETWEEN address 0xFF68 0xFF6B"
  shows "\<exists>s'. write_lcd_default address v s = Inr s'"
proof (cases "address \<le> 0xFF4B")
  case True
  with assms have r: "0 \<le> uint address - 0xFF40" "uint address - 0xFF40 \<le> 15"
    by (auto simp: BETWEEN_uint word_le_def)
  obtain l' where "lcd_set_byte (g_lcd s) (uint address - 0xFF40) v = Some l'"
    using lcd_set_byte_defined [OF r] by blast
  with True show ?thesis by (simp add: write_lcd_default_def)
next
  case False
  with assms have b: "BETWEEN address 0xFF68 0xFF6B"
    by (auto simp: BETWEEN_def)
  then have r: "0 \<le> 12 + (uint address - 0xFF68)" "12 + (uint address - 0xFF68) \<le> 15"
    by (simp_all add: BETWEEN_uint)
  obtain l' where "lcd_set_byte (g_lcd s) (12 + (uint address - 0xFF68)) v = Some l'"
    using lcd_set_byte_defined [OF r] by blast
  moreover have "0 \<le> uint address - 0xFF68"
    using b by (simp add: BETWEEN_uint)
  ultimately show ?thesis
    using False b by (simp add: write_lcd_default_def cgb_set_byte_def)
qed

lemma write_lcd_defined:
  assumes r: "BETWEEN address 0xFF40 0xFF4B \<or> BETWEEN address 0xFF68 0xFF6B"
    and n: "address \<noteq> 0xFF46"
  shows "\<exists>s'. write_lcd ni bgpal address v s = Inr s'"
proof (cases "address = 0xFF47 \<or> address = 0xFF48 \<or> address = 0xFF49")
  case True
  obtain ps where w: "write_lcd ni bgpal address v s =
          (case write_lcd_default address v (s\<lparr>g_palettes := ps\<rparr>) of
             Inl e \<Rightarrow> Inl e
           | Inr s2 \<Rightarrow> Inr (update_lyc_flag address s2))"
    using write_lcd_palette_register [OF True] by blast
  obtain s2 where "write_lcd_default address v (s\<lparr>g_palettes := ps\<rparr>) = Inr s2"
    using write_lcd_default_defined [OF r] by blast
  then show ?thesis unfolding w by simp
next
  case False
  obtain s2 where "write_lcd_default address v s = Inr s2"
    using write_lcd_default_defined [OF r] by blast
  with False n show ?thesis
    by (simp add: write_lcd_def Let_def)
qed

text \<open>
  C7 fails on the code, in \<open>read_lcd\<close>. Its assertion admits \<open>0xFF40\<close> to \<open>0xFF4A\<close> only, so
  the call fails at \<open>0xFF4B\<close> (WX, a field of the struct) and at each address of the
  colour-palette block \<open>0xFF68\<close> to \<open>0xFF6B\<close>, of which lcd.h documents \<open>0xFF68\<close> to \<open>0xFF6A\<close>
  for \<open>read_lcd\<close>; \<open>write_lcd\<close> stores the byte at every one of these addresses.
\<close>

theorem read_lcd_fails_where_write_lcd_stores:
  "read_lcd 0xFF4B s = Inl (AssertFailed ''Invalid LCD read address'')
   \<and> read_lcd 0xFF68 s = Inl (AssertFailed ''Invalid LCD read address'')
   \<and> read_lcd 0xFF69 s = Inl (AssertFailed ''Invalid LCD read address'')
   \<and> read_lcd 0xFF6A s = Inl (AssertFailed ''Invalid LCD read address'')
   \<and> read_lcd 0xFF6B s = Inl (AssertFailed ''Invalid LCD read address'')
   \<and> write_lcd ni bgpal 0xFF4B v s = Inr (s\<lparr>g_lcd := (g_lcd s)\<lparr>wx := v\<rparr>\<rparr>)
   \<and> write_lcd ni bgpal 0xFF68 v s = Inr (s\<lparr>g_lcd := (g_lcd s)\<lparr>bgpi := v\<rparr>\<rparr>)
   \<and> write_lcd ni bgpal 0xFF69 v s = Inr (s\<lparr>g_lcd := (g_lcd s)\<lparr>bgpd := v\<rparr>\<rparr>)
   \<and> write_lcd ni bgpal 0xFF6A v s = Inr (s\<lparr>g_lcd := (g_lcd s)\<lparr>obpi := v\<rparr>\<rparr>)
   \<and> write_lcd ni bgpal 0xFF6B v s = Inr (s\<lparr>g_lcd := (g_lcd s)\<lparr>obpd := v\<rparr>\<rparr>)"
  by (simp add: read_lcd_def ASSERT_MSG_def BETWEEN_def write_lcd_def write_lcd_default_def
      update_lyc_flag_def lcd_set_byte_def cgb_set_byte_def)

section \<open>Properties of the I/O dispatch\<close>

text \<open>
  C4, as the code has it. For every address that is neither in the timer range
  \<open>TIMER_DIV..TIMER_TAC\<close> nor the interrupt-flag register, \<open>read_io\<close> logs one diagnostic and
  returns 0, and \<open>write_io\<close> logs one diagnostic; both return, and neither changes the
  emulated state.
\<close>

theorem io_unmapped_address:
  "\<not> IN_RANGE address (TIMER_DIV env) (TIMER_TAC env) \<Longrightarrow> address \<noteq> IF_ADDRESS env \<Longrightarrow>
   read_io env address st = (0, st\<lparr>io_log := io_log st @ [LogErr ''IO write: '' address]\<rparr>)
   \<and> write_io env address data st = st\<lparr>io_log := io_log st @ [LogErr ''IO write: '' address]\<rparr>
   \<and> io_regs (snd (read_io env address st)) = io_regs st
   \<and> io_regs (write_io env address data st) = io_regs st"
  by (simp add: read_io_def write_io_def log_err_def)

theorem io_unmapped_address_witness:
  "\<not> IN_RANGE 0xFF10 (TIMER_DIV gb_io_env) (TIMER_TAC gb_io_env) \<and> 0xFF10 \<noteq> IF_ADDRESS gb_io_env
   \<and> read_io gb_io_env 0xFF10 \<lparr>io_regs = 0x5A, io_log = []\<rparr>
       = (0, \<lparr>io_regs = 0x5A, io_log = [LogErr ''IO write: '' 0xFF10]\<rparr>)
   \<and> write_io gb_io_env 0xFF10 0x77 \<lparr>io_regs = 0x5A, io_log = []\<rparr>
       = \<lparr>io_regs = 0x5A, io_log = [LogErr ''IO write: '' 0xFF10]\<rparr>"
proof -
  have h1: "\<not> IN_RANGE 0xFF10 (TIMER_DIV gb_io_env) (TIMER_TAC gb_io_env)"
    by (simp add: IN_RANGE_def gb_io_env_def)
  have h2: "0xFF10 \<noteq> IF_ADDRESS gb_io_env"
    by (simp add: gb_io_env_def)
  show ?thesis
    using h1 h2 io_unmapped_address [OF h1 h2, of "\<lparr>io_regs = 0x5A, io_log = []\<rparr>" "0x77"]
    by simp
qed

text \<open>
  C4 as stated fails: the byte \<open>read_io\<close> returns at an address without a register, here
  \<open>0xFF10\<close>, is \<open>0x00\<close> and not \<open>0xFF\<close>.
\<close>

theorem read_io_default_counterexample:
  "\<not> IN_RANGE 0xFF10 (TIMER_DIV gb_io_env) (TIMER_TAC gb_io_env) \<and> 0xFF10 \<noteq> IF_ADDRESS gb_io_env
   \<and> fst (read_io gb_io_env 0xFF10 \<lparr>io_regs = 0x5A, io_log = []\<rparr>) = 0x00
   \<and> fst (read_io gb_io_env 0xFF10 \<lparr>io_regs = 0x5A, io_log = []\<rparr>) \<noteq> 0xFF"
  by (simp add: read_io_def IN_RANGE_def gb_io_env_def log_err_def)

section \<open>Properties of the opcode fields\<close>

text \<open>The big-endian branch gives the fields of the comment, for every byte.\<close>

lemma opcode_fields_big_endian:
  "OPCODE_X BigEndianBranch b = bits_of 7 6 b
   \<and> OPCODE_Y BigEndianBranch b = bits_of 5 3 b
   \<and> OPCODE_Z BigEndianBranch b = bits_of 2 0 b
   \<and> OPCODE_P BigEndianBranch b = bits_of 5 4 b
   \<and> OPCODE_Q BigEndianBranch b = bits_of 3 3 b"
proof -
  have x: "drop_bit 6 b = take_bit 2 (drop_bit 6 b)"
    by (rule bit_word_eqI) (auto simp: bit_simps dest: bit_imp_le_length)
  have m7: "\<And>w :: u8. w AND 0x07 = take_bit 3 w"
    by (rule bit_word_eqI) (auto simp: bit_simps take_bit_eq_mask mask_eq_exp_minus_1)
  have m3: "\<And>w :: u8. w AND 0x03 = take_bit 2 w"
    by (rule bit_word_eqI) (auto simp: bit_simps take_bit_eq_mask mask_eq_exp_minus_1)
  have m1: "\<And>w :: u8. w AND 0x01 = take_bit 1 w"
    by (rule bit_word_eqI) (auto simp: bit_simps take_bit_eq_mask mask_eq_exp_minus_1)
  show ?thesis
    using x m7 m3 m1
    by (simp add: OPCODE_X_def OPCODE_Y_def OPCODE_Z_def OPCODE_P_def OPCODE_Q_def bits_of_def)
qed

text \<open>
  C3 fails on the little-endian branch. For the opcode \<open>0x40\<close> (\<open>LD B,B\<close>; binary
  \<open>01 000 000\<close>) the fields of the comment are \<open>x = 1\<close>, \<open>y = 0\<close>, \<open>z = 0\<close>, and the big-endian
  branch gives them; the little-endian branch gives \<open>x = 0\<close>, \<open>y = 0\<close>, \<open>z = 2\<close>.
\<close>

theorem opcode_fields_little_endian_differ:
  "bits_of 7 6 0x40 = 1 \<and> bits_of 5 3 0x40 = 0 \<and> bits_of 2 0 0x40 = 0
   \<and> OPCODE_X BigEndianBranch 0x40 = 1 \<and> OPCODE_Y BigEndianBranch 0x40 = 0
   \<and> OPCODE_Z BigEndianBranch 0x40 = 0
   \<and> OPCODE_X LittleEndianBranch 0x40 = 0 \<and> OPCODE_Y LittleEndianBranch 0x40 = 0
   \<and> OPCODE_Z LittleEndianBranch 0x40 = 2"
  by (simp add: bits_of_def OPCODE_X_def OPCODE_Y_def OPCODE_Z_def)

section \<open>Properties of cartridge loading\<close>

declare checksum_loop.simps [simp del]

lemma checksum_loop_sum_zero: "checksum_loop rom_sum_zero 0x134 0 = Inr 0"
  by code_simp

lemma checksum_loop_sum_nonzero: "checksum_loop rom_sum_nonzero 0x134 0 = Inr 25"
  by code_simp

text \<open>After a successful \<open>fopen\<close>, what \<open>load_cartridge\<close> returns is the negation of what
  \<open>verify_header_checksum\<close> returns on the bytes read.\<close>

lemma load_cartridge_returns_negation:
  assumes "fopen env path = Some bytes"
    and "checksum_loop bytes 0x0134 0 = Inr csum"
  shows "\<exists>s'. load_cartridge env path s = Inr (csum \<noteq> 0, s')"
  using assms
  by (cases "csum = 0") (simp_all add: load_cartridge_def verify_header_checksum_def Let_def)

text \<open>
  C5 fails on the code, which has the test the wrong way round. On a ROM whose header bytes
  make \<open>verify_header_checksum\<close> return true, \<open>load_cartridge\<close> prints
  \<open>Invalid checksum\<close> and returns false; on one where it returns false, \<open>load_cartridge\<close>
  prints nothing and returns true.
\<close>

theorem load_cartridge_checksum_inverted:
  "verify_header_checksum ((cartridge cart_static)\<lparr>rom := Some rom_sum_zero\<rparr>) = Inr True
   \<and> (\<exists>s. load_cartridge demo_cart_env ''zero.gb'' cart_static = Inr (False, s)
          \<and> rom (cartridge s) = Some rom_sum_zero
          \<and> stderr s = [''Failed to load cartridge: Invalid checksum.''])
   \<and> verify_header_checksum ((cartridge cart_static)\<lparr>rom := Some rom_sum_nonzero\<rparr>) = Inr False
   \<and> (\<exists>s. load_cartridge demo_cart_env ''nonzero.gb'' cart_static = Inr (True, s)
          \<and> rom (cartridge s) = Some rom_sum_nonzero
          \<and> stderr s = [])"
  by (simp add: verify_header_checksum_def load_cartridge_def demo_cart_env_def cart_static_def
      checksum_loop_sum_zero checksum_loop_sum_nonzero)

section \<open>Properties of the command line\<close>

text \<open>With \<open>GBEMU_NB_ARGS = 1\<close>: no positional argument, or three, end in the usage message.\<close>

lemma parse_options_none_or_three:
  "parse_options 1 [] = Inl UsageExit
   \<and> parse_options 1 [Opt CHR ''b'' None] = Inl UsageExit
   \<and> parse_options 1 [Positional ''a.gb'', Positional ''b.gb'', Positional ''c.gb''] = Inl UsageExit"
  by (simp add: parse_options_def parse_opt_def get_options_def)

text \<open>Whatever \<open>GBEMU_NB_ARGS\<close> is, one positional argument more than that is accepted.\<close>

lemma argp_parse_one_more_positional:
  "arg_num + length ps = Suc nb \<Longrightarrow> \<exists>st'. argp_parse nb (map Positional ps) arg_num st = Inr st'"
proof (induction ps arbitrary: arg_num st)
  case Nil
  then show ?case by (cases st) (simp add: parse_opt_def)
next
  case (Cons p ps)
  from Cons.prems have le: "\<not> arg_num > nb" and rest: "Suc arg_num + length ps = Suc nb"
    by simp_all
  obtain arguments out where st: "st = (arguments, out)"
    by (cases st)
  from Cons.IH [OF rest] obtain st' where
    "argp_parse nb (map Positional ps) (Suc arg_num)
       (arguments\<lparr>opt_args := (opt_args arguments)(arg_num := Some p)\<rparr>, out) = Inr st'"
    by blast
  with le show ?case
    unfolding st by (simp add: parse_opt_def)
qed

text \<open>
  C8 fails on the code for two positional arguments. With \<open>GBEMU_NB_ARGS = 1\<close>, the second
  argument comes with \<open>arg_num = 1\<close>, which is not greater than 1: it is stored, no usage
  message is printed, and \<open>parse_options\<close> returns the struct.
\<close>

theorem parse_options_two_positionals:
  "parse_options 1 [Positional ''a.gb'', Positional ''b.gb'']
     = Inr (get_options\<lparr>opt_args := [0 \<mapsto> ''a.gb'', 1 \<mapsto> ''b.gb'']\<rparr>, [])"
  by (simp add: parse_options_def parse_opt_def get_options_def)

section \<open>Properties of the main loop\<close>

lemma loop_body_calls:
  "snd (loop_body f b st) = snd st @ iteration_calls b (halt (fst st))"
  by (cases st) (simp add: loop_body_def iteration_calls_def Let_def)

lemma iterated_calls:
  "snd ((loop_body f b ^^ n) st) =
     snd st @ concat (map (\<lambda>k. iteration_calls b (halt (fst ((loop_body f b ^^ k) st)))) [0..<n])"
  by (induction n) (simp_all add: loop_body_calls)

text \<open>While the flag is set at the start of each of the first \<open>n\<close> iterations, the loop goes
  through them.\<close>

lemma main_loop_unroll:
  "(\<And>k. k < n \<Longrightarrow> is_running (fst ((loop_body f b ^^ k) st))) \<Longrightarrow>
   main_loop f b st = main_loop f b ((loop_body f b ^^ n) st)"
proof (induction n)
  case 0
  show ?case by simp
next
  case (Suc n)
  have "main_loop f b st = main_loop f b ((loop_body f b ^^ n) st)"
    using Suc by simp
  also have "\<dots> = main_loop f b (loop_body f b ((loop_body f b ^^ n) st))"
    using Suc.prems [of n] by (subst main_loop.simps) simp
  finally show ?case by simp
qed

text \<open>A loop that ends has gone through some number of iterations and found the flag clear
  at the start of the next.\<close>

lemma main_loop_stops:
  assumes "main_loop f b st = Some st'"
  shows "\<exists>n. st' = (loop_body f b ^^ n) st \<and> \<not> is_running (fst st')
       \<and> (\<forall>k<n. is_running (fst ((loop_body f b ^^ k) st)))"
proof (rule main_loop.raw_induct [where P = "\<lambda>f b st st'.
        \<exists>n. st' = (loop_body f b ^^ n) st \<and> \<not> is_running (fst st')
          \<and> (\<forall>k<n. is_running (fst ((loop_body f b ^^ k) st)))", OF _ assms])
  fix ml :: "'a ops \<Rightarrow> bool \<Rightarrow> 'a emu \<times> call list \<Rightarrow> ('a emu \<times> call list) option"
  fix f b st st'
  assume IH: "\<And>f b st y. ml f b st = Some y \<Longrightarrow>
        \<exists>n. y = (loop_body f b ^^ n) st \<and> \<not> is_running (fst y)
          \<and> (\<forall>k<n. is_running (fst ((loop_body f b ^^ k) st)))"
  assume eq: "(if is_running (fst st) then ml f b (loop_body f b st) else Some st) = Some st'"
  show "\<exists>n. st' = (loop_body f b ^^ n) st \<and> \<not> is_running (fst st')
          \<and> (\<forall>k<n. is_running (fst ((loop_body f b ^^ k) st)))"
  proof (cases "is_running (fst st)")
    case False
    with eq have "st' = st" by simp
    with False show ?thesis by (intro exI [of _ 0]) simp
  next
    case True
    with eq have "ml f b (loop_body f b st) = Some st'" by simp
    from IH [OF this] obtain n where
      n: "st' = (loop_body f b ^^ n) (loop_body f b st)" "\<not> is_running (fst st')"
         "\<forall>k<n. is_running (fst ((loop_body f b ^^ k) (loop_body f b st)))"
      by blast
    have "\<forall>k<Suc n. is_running (fst ((loop_body f b ^^ k) st))"
    proof (intro allI impI)
      fix k assume "k < Suc n"
      show "is_running (fst ((loop_body f b ^^ k) st))"
      proof (cases k)
        case 0
        with True show ?thesis by simp
      next
        case (Suc j)
        with \<open>k < Suc n\<close> n(3) show ?thesis by (simp add: funpow_swap1)
      qed
    qed
    with n(1,2) show ?thesis
      by (intro exI [of _ "Suc n"]) (simp add: funpow_swap1)
  qed
qed

lemma main_loop_iff:
  "main_loop f b st = Some st' \<longleftrightarrow>
     (\<exists>n. st' = (loop_body f b ^^ n) st \<and> \<not> is_running (fst st')
        \<and> (\<forall>k<n. is_running (fst ((loop_body f b ^^ k) st))))"
proof
  assume "main_loop f b st = Some st'"
  then show "\<exists>n. st' = (loop_body f b ^^ n) st \<and> \<not> is_running (fst st')
        \<and> (\<forall>k<n. is_running (fst ((loop_body f b ^^ k) st)))"
    by (rule main_loop_stops)
next
  assume "\<exists>n. st' = (loop_body f b ^^ n) st \<and> \<not> is_running (fst st')
        \<and> (\<forall>k<n. is_running (fst ((loop_body f b ^^ k) st)))"
  then obtain n where n: "st' = (loop_body f b ^^ n) st" "\<not> is_running (fst st')"
      "\<And>k. k < n \<Longrightarrow> is_running (fst ((loop_body f b ^^ k) st))"
    by blast
  have "main_loop f b st = main_loop f b st'"
    unfolding n(1) using n(3) by (rule main_loop_unroll)
  also have "\<dots> = Some st'"
    using n(2) by (subst main_loop.simps) simp
  finally show "main_loop f b st = Some st'" .
qed

lemma loop_body_state:
  "fst (loop_body f b st) =
     (let g1 = (if halt (fst st) then timer_tick f (fst st) else execute_instruction f (fst st));
          g2 = handle_interrupts f g1
      in if b then test_rom_print f (test_rom_update f g2) else g2)"
  by (cases st) (simp add: loop_body_def Let_def)

text \<open>
  C1. The loop returns exactly when, after some number \<open>n\<close> of iterations, each begun with
  the running flag set, the flag is clear at the start of the next; the flag is not looked
  at anywhere else. The calls of \<open>n\<close> iterations are, iteration by iteration, one unit of
  work (\<open>timer_tick\<close> if the CPU is halted at the start of the iteration,
  \<open>execute_instruction\<close> otherwise), then one \<open>handle_interrupts\<close>, then the two test-ROM
  calls if the \<open>blargg\<close> option is set; and the globals after an iteration are what these
  calls give in this order.
\<close>

theorem main_loop_iterations:
  "(main_loop f b st = Some st' \<longleftrightarrow>
      (\<exists>n. st' = (loop_body f b ^^ n) st \<and> \<not> is_running (fst st')
         \<and> (\<forall>k<n. is_running (fst ((loop_body f b ^^ k) st)))))
   \<and> snd ((loop_body f b ^^ n) st) =
       snd st @ concat (map (\<lambda>k. iteration_calls b (halt (fst ((loop_body f b ^^ k) st)))) [0..<n])
   \<and> iteration_calls b h =
       [if h then TimerTick else ExecuteInstruction, HandleInterrupts]
       @ (if b then [TestRomUpdate, TestRomPrint] else [])
   \<and> fst (loop_body f b st) =
       (let g1 = (if halt (fst st) then timer_tick f (fst st) else execute_instruction f (fst st));
            g2 = handle_interrupts f g1
        in if b then test_rom_print f (test_rom_update f g2) else g2)"
  using main_loop_iff [where f = f and b = b and st = st and st' = st']
    iterated_calls [where f = f and b = b and n = n and st = st]
    loop_body_state [where f = f and b = b and st = st]
  by (simp add: iteration_calls_def)

lemma demo_first_iteration:
  "loop_body demo_ops False (g\<lparr>is_running := True, halt := False\<rparr>, cs) =
     (g\<lparr>is_running := True, halt := True\<rparr>, cs @ [ExecuteInstruction, HandleInterrupts])"
  by (simp add: loop_body_def demo_ops_def)

lemma demo_second_iteration:
  "loop_body demo_ops False (g\<lparr>is_running := True, halt := True\<rparr>, cs) =
     (g\<lparr>is_running := False, halt := True\<rparr>, cs @ [TimerTick, HandleInterrupts])"
  by (simp add: loop_body_def demo_ops_def)

theorem main_loop_iterations_witness:
  "is_running (fst ((loop_body demo_ops False ^^ 0)
              (emu_static\<lparr>is_running := True, halt := False\<rparr>, [])))
   \<and> is_running (fst ((loop_body demo_ops False ^^ 1)
              (emu_static\<lparr>is_running := True, halt := False\<rparr>, [])))
   \<and> \<not> is_running (fst ((loop_body demo_ops False ^^ 2)
              (emu_static\<lparr>is_running := True, halt := False\<rparr>, [])))
   \<and> main_loop demo_ops False (emu_static\<lparr>is_running := True, halt := False\<rparr>, []) =
       Some (emu_static\<lparr>is_running := False, halt := True\<rparr>,
             [ExecuteInstruction, HandleInterrupts, TimerTick, HandleInterrupts])"
proof -
  let ?st = "(emu_static\<lparr>is_running := True, halt := False\<rparr>, [] :: call list)"
  let ?st' = "(emu_static\<lparr>is_running := False, halt := True\<rparr>,
               [ExecuteInstruction, HandleInterrupts, TimerTick, HandleInterrupts])"
  have two: "(loop_body demo_ops False ^^ 2) ?st = ?st'"
    by (simp add: numeral_2_eq_2 demo_first_iteration demo_second_iteration)
  have run: "\<forall>k<2. is_running (fst ((loop_body demo_ops False ^^ k) ?st))"
    by (simp add: numeral_2_eq_2 less_Suc_eq demo_first_iteration)
  have "\<exists>n. ?st' = (loop_body demo_ops False ^^ n) ?st \<and> \<not> is_running (fst ?st')
         \<and> (\<forall>k<n. is_running (fst ((loop_body demo_ops False ^^ k) ?st)))"
    using two run by (intro exI [of _ 2]) simp
  then have "main_loop demo_ops False ?st = Some ?st'"
    using main_loop_iterations [where f = demo_ops and b = False and st = ?st and st' = ?st']
    by blast
  moreover have "is_running (fst ((loop_body demo_ops False ^^ 0) ?st))"
    and "is_running (fst ((loop_body demo_ops False ^^ 1) ?st))"
    by (simp_all add: demo_first_iteration)
  moreover have "\<not> is_running (fst ((loop_body demo_ops False ^^ 2) ?st))"
    unfolding two by simp
  ultimately show ?thesis by blast
qed

section \<open>Properties of the program\<close>

text \<open>What \<open>main\<close> does after \<open>load_cartridge\<close> does not depend on the value it returned.\<close>

lemma main_ignores_load_result:
  assumes "parse_options nb argv = Inr (options, out)"
    and "opt_args options 0 = Some path"
    and "load_cartridge env path (cart g) = Inr (loaded, c)"
    and "cartridge_info env c = Inr c'"
  shows "main nb env f argv g =
     (case main_loop f (opt_blargg options)
             (reset_timer f (reset_cpu f (g\<lparr>cart := c'\<rparr>)), []) of
        None \<Rightarrow> Diverged
      | Some (g', calls) \<Rightarrow> Returned g' calls)"
  using assms by (simp add: main_def Let_def)

text \<open>With a ROM in place \<open>cartridge_info\<close> returns, and it changes \<open>stdout\<close> only.\<close>

lemma cartridge_info_loaded:
  "rom (cartridge s) = Some bytes \<Longrightarrow> \<exists>out. cartridge_info env s = Inr (s\<lparr>stdout := out\<rparr>)"
  by (simp add: cartridge_info_def) blast

lemma demo_main_loop:
  "main_loop demo_ops False (g\<lparr>is_running := True, halt := False\<rparr>, []) =
     Some (g\<lparr>is_running := False, halt := True\<rparr>,
           [ExecuteInstruction, HandleInterrupts, TimerTick, HandleInterrupts])"
  apply (subst main_loop.simps, simp add: demo_first_iteration)
  apply (subst main_loop.simps, simp add: demo_second_iteration)
  apply (subst main_loop.simps, simp)
  done

lemma demo_parse_options:
  "parse_options 1 [Positional p] = Inr (get_options\<lparr>opt_args := [0 \<mapsto> p]\<rparr>, [])"
  by (simp add: parse_options_def parse_opt_def get_options_def)

text \<open>
  C2 fails on the code: \<open>main\<close> drops what \<open>load_cartridge\<close> returns. Run on the file
  \<open>zero.gb\<close>, \<open>load_cartridge\<close> prints \<open>Invalid checksum\<close> and returns false, and \<open>main\<close>
  goes on to reset the CPU and to run the loop, here for two iterations.
\<close>

theorem main_runs_after_failed_load:
  "(\<exists>c. load_cartridge demo_cart_env ''zero.gb'' (cart emu_static) = Inr (False, c)
         \<and> stderr c = [''Failed to load cartridge: Invalid checksum.''])
   \<and> (\<exists>g'. main 1 demo_cart_env demo_ops [Positional ''zero.gb''] emu_static =
         Returned g' [ExecuteInstruction, HandleInterrupts, TimerTick, HandleInterrupts])"
proof -
  obtain c where c: "load_cartridge demo_cart_env ''zero.gb'' (cart emu_static) = Inr (False, c)"
      "stderr c = [''Failed to load cartridge: Invalid checksum.'']"
      "rom (cartridge c) = Some rom_sum_zero"
    by (simp add: verify_header_checksum_def load_cartridge_def demo_cart_env_def cart_static_def
        emu_static_def checksum_loop_sum_zero)
  obtain c' where c': "cartridge_info demo_cart_env c = Inr c'"
    using cartridge_info_loaded [OF c(3)] by blast
  have p: "opt_args (get_options\<lparr>opt_args := [0 \<mapsto> ''zero.gb'']\<rparr>) 0 = Some ''zero.gb''"
    by simp
  have r: "reset_timer demo_ops (reset_cpu demo_ops (emu_static\<lparr>cart := c'\<rparr>))
        = (emu_static\<lparr>cart := c'\<rparr>)\<lparr>is_running := True, halt := False\<rparr>"
    by (simp add: demo_ops_def)
  have b: "opt_blargg (get_options\<lparr>opt_args := [0 \<mapsto> ''zero.gb'']\<rparr>) = False"
    by (simp add: get_options_def)
  have "main 1 demo_cart_env demo_ops [Positional ''zero.gb''] emu_static =
         Returned ((emu_static\<lparr>cart := c'\<rparr>)\<lparr>is_running := False, halt := True\<rparr>)
           [ExecuteInstruction, HandleInterrupts, TimerTick, HandleInterrupts]"
    unfolding main_ignores_load_result [OF demo_parse_options p c(1) c'] r b demo_main_loop
    by simp
  with c show ?thesis by blast
qed

text \<open>
  When the file cannot be opened, \<open>load_cartridge\<close> returns false with \<open>cartridge.rom\<close> still
  \<open>NULL\<close>; \<open>main\<close> goes on all the same, and the run ends in \<open>cartridge_info\<close>, at the
  access through the null pointer, before the loop.
\<close>

lemma main_missing_file:
  "load_cartridge demo_cart_env ''missing.gb'' (cart emu_static) =
     Inr (False, cart_static\<lparr>stderr := [''Failed to load cartridge'']\<rparr>)
   \<and> main 1 demo_cart_env demo_ops [Positional ''missing.gb''] emu_static = Crashed NullPointer"
proof -
  have l: "load_cartridge demo_cart_env ''missing.gb'' (cart emu_static) =
      Inr (False, cart_static\<lparr>stderr := [''Failed to load cartridge'']\<rparr>)"
    by (simp add: load_cartridge_def demo_cart_env_def emu_static_def cart_static_def)
  have i: "cartridge_info demo_cart_env (cart_static\<lparr>stderr := [''Failed to load cartridge'']\<rparr>)
      = Inl NullPointer"
    by (simp add: cartridge_info_def cart_static_def)
  have "main 1 demo_cart_env demo_ops [Positional ''missing.gb''] emu_static = Crashed NullPointer"
    unfolding main_def demo_parse_options by (simp add: l i)
  with l show ?thesis by simp
qed

end
